theory Spec2Isabelle
  imports Main "HOL-Library.Word"
begin

section \<open>The contact service client of bitespeed-client\<close>

text \<open>
  The development embeds \<^verbatim>\<open>src/services/api.ts\<close> (the two operations
  \<^verbatim>\<open>checkHealth\<close> and \<^verbatim>\<open>identifyContact\<close>) and the submit path of
  \<^verbatim>\<open>src/pages/IdentifyPage.tsx\<close>. An \<^verbatim>\<open>async\<close> function is a state
  transformer that returns \<open>Inr v\<close> when its promise resolves to \<open>v\<close> and \<open>Inl e\<close>
  when it rejects with \<open>e\<close>; \<^verbatim>\<open>await\<close> is sequencing. A promise that never
  settles has no outcome and is outside the model.
\<close>

subsection \<open>Strings and thrown values\<close>

text \<open>
  A JavaScript string is a sequence of 16-bit code units. \<open>lit\<close> embeds the ASCII
  literals of the source.
\<close>

type_synonym code_unit = "16 word"
type_synonym js_string = "code_unit list"

definition lit :: "string \<Rightarrow> js_string" where
  "lit s = map of_char s"

text \<open>
  A thrown value is an error object with its \<^verbatim>\<open>name\<close> and \<^verbatim>\<open>message\<close>:
  the \<^verbatim>\<open>TypeError\<close> of a failed \<^verbatim>\<open>fetch\<close>, the \<^verbatim>\<open>SyntaxError\<close> of
  \<^verbatim>\<open>response.json()\<close>, an \<^verbatim>\<open>AbortError\<close>, and the plain \<^verbatim>\<open>Error\<close> that
  \<^verbatim>\<open>new Error(message)\<close> builds.
\<close>

datatype js_error = JsError (error_name: js_string) (error_message: js_string)

definition new_Error :: "js_string \<Rightarrow> js_error" where
  "new_Error message = JsError (lit ''Error'') message"

subsection \<open>Requests, responses and the world\<close>

record request =
  url :: js_string
  http_method :: js_string
  headers :: "(js_string \<times> js_string) list"
  body :: "js_string option"

text \<open>
  Of a response the client reads \<^verbatim>\<open>status\<close>, \<^verbatim>\<open>ok\<close> and the outcome of
  \<^verbatim>\<open>json()\<close>: the parsed body, of any type \<open>'j\<close>, or the error it rejects with.
  \<^verbatim>\<open>ok\<close> is the getter of the Fetch standard: the status is in 200..299.
\<close>

record 'j response =
  status :: nat
  json :: "js_error + 'j"

definition ok :: "'j response \<Rightarrow> bool" where
  "ok r = (200 \<le> status r \<and> status r \<le> 299)"

text \<open>
  The world holds the state of the transport (the remote service, the network, or a
  mock), the requests handed to \<^verbatim>\<open>fetch\<close> so far, and the lines written with
  \<^verbatim>\<open>console.error\<close>. A transport answers a request in a state with the settled
  outcome of \<^verbatim>\<open>fetch\<close> and its next state.
\<close>

record 'n world =
  net :: 'n
  sent :: "request list"
  console :: "(js_string \<times> js_error) list"

type_synonym ('n, 'j) transport = "'n \<Rightarrow> request \<Rightarrow> (js_error + 'j response) \<times> 'n"

type_synonym ('a, 's) async = "'s \<Rightarrow> (js_error + 'a) \<times> 's"

definition return :: "'a \<Rightarrow> ('a, 's) async" where
  "return v s = (Inr v, s)"

definition throw :: "js_error \<Rightarrow> ('a, 's) async" where
  "throw e s = (Inl e, s)"

definition await :: "('a, 's) async \<Rightarrow> ('a \<Rightarrow> ('b, 's) async) \<Rightarrow> ('b, 's) async" where
  "await m k s = (case m s of (Inl e, s') \<Rightarrow> (Inl e, s') | (Inr v, s') \<Rightarrow> k v s')"

definition try_catch :: "('a, 's) async \<Rightarrow> (js_error \<Rightarrow> ('a, 's) async) \<Rightarrow> ('a, 's) async" where
  "try_catch block handler s =
     (case block s of (Inl e, s') \<Rightarrow> handler e s' | (Inr v, s') \<Rightarrow> (Inr v, s'))"

definition console_error :: "js_string \<Rightarrow> js_error \<Rightarrow> (unit, ('n, 'z) world_scheme) async" where
  "console_error label e w = (Inr (), w\<lparr>console := console w @ [(label, e)]\<rparr>)"

definition fetch :: "('n, 'j) transport \<Rightarrow> request \<Rightarrow> ('j response, ('n, 'z) world_scheme) async" where
  "fetch tr rq w =
     (case tr (net w) rq of (outcome, n') \<Rightarrow> (outcome, w\<lparr>net := n', sent := sent w @ [rq]\<rparr>))"

definition response_json :: "'j response \<Rightarrow> ('j, 's) async" where
  "response_json r s = (json r, s)"

subsection \<open>The client: \<^verbatim>\<open>src/services/api.ts\<close>\<close>

definition BASE_URL :: js_string where
  "BASE_URL = lit ''https://aryan-bitespeed.onrender.com/api''"

definition health_request :: request where
  "health_request =
     \<lparr>url = BASE_URL @ lit ''/health'',
      http_method = lit ''GET'',
      headers = [(lit ''Content-Type'', lit ''application/json'')],
      body = None\<rparr>"

definition checkHealth :: "('n, 'j) transport \<Rightarrow> (bool, ('n, 'z) world_scheme) async" where
  "checkHealth tr =
     try_catch
       (await (fetch tr health_request)
          (\<lambda>response. return (status response = 200 \<or> status response = 201)))
       (\<lambda>error. await (console_error (lit ''Health check failed:'') error)
          (\<lambda>_. return False))"

text \<open>
  A value of the interface \<^verbatim>\<open>IdentifyRequest\<close> is an object whose own properties,
  in their order, are among \<^verbatim>\<open>email\<close> and \<^verbatim>\<open>phoneNumber\<close>; an optional
  property is absent, or present with the value \<^verbatim>\<open>undefined\<close> (\<open>None\<close>) or with a
  string.
\<close>

datatype field = email | phoneNumber

fun field_name :: "field \<Rightarrow> js_string" where
  "field_name email = lit ''email''"
| "field_name phoneNumber = lit ''phoneNumber''"

type_synonym IdentifyRequest = "(field \<times> js_string option) list"

text \<open>Reading a property: an absent property reads as \<^verbatim>\<open>undefined\<close>.\<close>

definition get_prop :: "IdentifyRequest \<Rightarrow> field \<Rightarrow> js_string option" where
  "get_prop data k = (case map_of data k of None \<Rightarrow> None | Some v \<Rightarrow> v)"

subsubsection \<open>\<^verbatim>\<open>JSON.stringify\<close> on such an object, after ECMA-262\<close>

definition hex_digit :: "nat \<Rightarrow> code_unit" where
  "hex_digit d = (if d < 10 then of_nat (48 + d) else of_nat (87 + d))"

definition UnicodeEscape :: "code_unit \<Rightarrow> js_string" where
  "UnicodeEscape c =
     (let n = unat c in
      [0x5C, 0x75, hex_digit (n div 4096), hex_digit (n div 256 mod 16),
       hex_digit (n div 16 mod 16), hex_digit (n mod 16)])"

definition is_leading_surrogate :: "code_unit \<Rightarrow> bool" where
  "is_leading_surrogate c = (0xD800 \<le> c \<and> c \<le> 0xDBFF)"

definition is_trailing_surrogate :: "code_unit \<Rightarrow> bool" where
  "is_trailing_surrogate c = (0xDC00 \<le> c \<and> c \<le> 0xDFFF)"

text \<open>
  One code point that is not a surrogate pair: the two-character escapes of the table,
  \<^verbatim>\<open>\uXXXX\<close> for the other control characters and for a lone surrogate, the code
  unit itself otherwise.
\<close>

definition escape_code_unit :: "code_unit \<Rightarrow> js_string" where
  "escape_code_unit c =
     (if c = 0x08 then [0x5C, 0x62]
      else if c = 0x09 then [0x5C, 0x74]
      else if c = 0x0A then [0x5C, 0x6E]
      else if c = 0x0C then [0x5C, 0x66]
      else if c = 0x0D then [0x5C, 0x72]
      else if c = 0x22 then [0x5C, 0x22]
      else if c = 0x5C then [0x5C, 0x5C]
      else if c < 0x20 \<or> is_leading_surrogate c \<or> is_trailing_surrogate c
        then UnicodeEscape c
      else [c])"

fun quote_units :: "js_string \<Rightarrow> js_string" where
  "quote_units [] = []"
| "quote_units [c] = escape_code_unit c"
| "quote_units (c # d # cs) =
     (if is_leading_surrogate c \<and> is_trailing_surrogate d then c # d # quote_units cs
      else escape_code_unit c @ quote_units (d # cs))"

definition QuoteJSONString :: "js_string \<Rightarrow> js_string" where
  "QuoteJSONString s = 0x22 # quote_units s @ [0x22]"

fun SerializeJSONProperty :: "js_string option \<Rightarrow> js_string option" where
  "SerializeJSONProperty None = None"
| "SerializeJSONProperty (Some s) = Some (QuoteJSONString s)"

fun join_comma :: "js_string list \<Rightarrow> js_string" where
  "join_comma [] = []"
| "join_comma [m] = m"
| "join_comma (m # ms) = m @ 0x2C # join_comma ms"

definition SerializeJSONObject :: "IdentifyRequest \<Rightarrow> js_string" where
  "SerializeJSONObject data =
     (let partial =
        List.map_filter
          (\<lambda>(k, v). map_option (\<lambda>strP. QuoteJSONString (field_name k) @ 0x3A # strP)
             (SerializeJSONProperty v))
          data
      in 0x7B # join_comma partial @ [0x7D])"

definition JSON_stringify :: "IdentifyRequest \<Rightarrow> js_string" where
  "JSON_stringify data = SerializeJSONObject data"

text \<open>
  The string of a status in a template literal: the decimal digits of a non-negative
  integer.
\<close>

fun Number_toString :: "nat \<Rightarrow> js_string" where
  "Number_toString n =
     (if n < 10 then [of_nat (48 + n)]
      else Number_toString (n div 10) @ [of_nat (48 + n mod 10)])"

declare Number_toString.simps [simp del]

text \<open>
  The argument of \<^verbatim>\<open>fetch\<close>, the \<^verbatim>\<open>try\<close> block of \<^verbatim>\<open>identifyContact\<close>, and
  the function.
\<close>

definition identify_request :: "IdentifyRequest \<Rightarrow> request" where
  "identify_request data =
     \<lparr>url = BASE_URL @ lit ''/identify'',
      http_method = lit ''POST'',
      headers = [(lit ''Content-Type'', lit ''application/json'')],
      body = Some (JSON_stringify data)\<rparr>"

definition identifyContact_try ::
  "('n, 'j) transport \<Rightarrow> IdentifyRequest \<Rightarrow> ('j, ('n, 'z) world_scheme) async" where
  "identifyContact_try tr data =
     await (fetch tr (identify_request data))
       (\<lambda>response.
          await
            (if \<not> ok response
             then throw (new_Error
                    (lit ''HTTP error! status: '' @ Number_toString (status response)))
             else return ())
            (\<lambda>_. await (response_json response) (\<lambda>result. return result)))"

definition identifyContact ::
  "('n, 'j) transport \<Rightarrow> IdentifyRequest \<Rightarrow> ('j, ('n, 'z) world_scheme) async" where
  "identifyContact tr data =
     try_catch (identifyContact_try tr data)
       (\<lambda>error. await (console_error (lit ''API call failed:'') error) (\<lambda>_. throw error))"

subsection \<open>The submit path of \<^verbatim>\<open>src/pages/IdentifyPage.tsx\<close>\<close>

text \<open>
  The page adds to the world the state its hooks hold and the notifications it has
  raised (the style options of a toast are left out).
\<close>

datatype toast = toast_success js_string | toast_error js_string

record ('n, 'j) page = "'n world" +
  response :: "'j option"
  isLoading :: bool
  errors :: "(field \<times> js_string) list"
  toasts :: "toast list"

definition raise_toast :: "toast \<Rightarrow> (unit, ('n, 'j, 'z) page_scheme) async" where
  "raise_toast t p = (Inr (), p\<lparr>toasts := toasts p @ [t]\<rparr>)"

definition setResponse :: "'j option \<Rightarrow> (unit, ('n, 'j, 'z) page_scheme) async" where
  "setResponse v p = (Inr (), p\<lparr>response := v\<rparr>)"

definition setIsLoading :: "bool \<Rightarrow> (unit, ('n, 'j, 'z) page_scheme) async" where
  "setIsLoading b p = (Inr (), p\<lparr>isLoading := b\<rparr>)"

definition try_finally :: "('a, 's) async \<Rightarrow> (unit, 's) async \<Rightarrow> ('a, 's) async" where
  "try_finally block final s =
     (case block s of
        (r, s') \<Rightarrow> (case final s' of (Inl e, s'') \<Rightarrow> (Inl e, s'') | (Inr _, s'') \<Rightarrow> (r, s'')))"

text \<open>
  Truthiness of a value of type \<^verbatim>\<open>string | undefined\<close>: \<^verbatim>\<open>undefined\<close> and the
  empty string are falsy.
\<close>

definition truthy :: "js_string option \<Rightarrow> bool" where
  "truthy v = (case v of None \<Rightarrow> False | Some s \<Rightarrow> s \<noteq> [])"

text \<open>
  \<^verbatim>\<open>formSchema\<close>: both properties are optional strings, which the type of the data
  already says; the refinement reports its message at the path \<^verbatim>\<open>email\<close>.
\<close>

definition formSchema :: "IdentifyRequest \<Rightarrow> (field \<times> js_string) list + IdentifyRequest" where
  "formSchema data =
     (if truthy (get_prop data email) \<or> truthy (get_prop data phoneNumber) then Inr data
      else Inl [(email, lit ''At least one field (email or phone number) is required'')])"

definition onSubmit ::
  "('n, 'j) transport \<Rightarrow> IdentifyRequest \<Rightarrow> (unit, ('n, 'j, 'z) page_scheme) async" where
  "onSubmit tr data =
     (if \<not> truthy (get_prop data email) \<and> \<not> truthy (get_prop data phoneNumber) then
        await (raise_toast (toast_error (lit ''Please provide at least one field'')))
          (\<lambda>_. return ())
      else
        await (setIsLoading True)
          (\<lambda>_. try_finally
             (try_catch
                (await (identifyContact tr data)
                   (\<lambda>result. await (setResponse (Some result))
                      (\<lambda>_. raise_toast (toast_success (lit ''Contact identified'')))))
                (\<lambda>error. await (raise_toast (toast_error (lit ''Failed to identify contact'')))
                   (\<lambda>_. setResponse None)))
             (setIsLoading False)))"

text \<open>
  \<^verbatim>\<open>handleSubmit(onSubmit)\<close> of the form library with the schema as resolver: the
  values are validated, the handler runs on the validated data, and a rejected
  submission only records the issues.
\<close>

definition handleSubmit ::
  "('n, 'j) transport \<Rightarrow> IdentifyRequest \<Rightarrow> (unit, ('n, 'j, 'z) page_scheme) async" where
  "handleSubmit tr values p =
     (case formSchema values of
        Inl issues \<Rightarrow> (Inr (), p\<lparr>errors := issues\<rparr>)
      | Inr data \<Rightarrow> onSubmit tr data (p\<lparr>errors := []\<rparr>))"

subsection \<open>Reading the serialised form back\<close>















subsection \<open>Parsed bodies and mock transports\<close>

text \<open>
  The client is polymorphic in the type of a parsed body. The concrete values are JSON
  values (with the integers for numbers); \<open>ContactResponse\<close> is the shape that the
  interface of this name declares.
\<close>

datatype json =
  JNull
  | JBoolean bool
  | JNumber int
  | JString js_string
  | JArray "json list"
  | JObject "(js_string \<times> json) list"

fun is_string :: "json \<Rightarrow> bool" where
  "is_string (JString s) = True"
| "is_string _ = False"

fun is_number :: "json \<Rightarrow> bool" where
  "is_number (JNumber n) = True"
| "is_number _ = False"

fun is_string_array :: "json \<Rightarrow> bool" where
  "is_string_array (JArray vs) = list_all is_string vs"
| "is_string_array _ = False"

fun has_member :: "json \<Rightarrow> js_string \<Rightarrow> (json \<Rightarrow> bool) \<Rightarrow> bool" where
  "has_member (JObject ms) k P = (case map_of ms k of None \<Rightarrow> False | Some v \<Rightarrow> P v)"
| "has_member _ k P = False"

definition ContactResponse :: "json \<Rightarrow> bool" where
  "ContactResponse v =
     has_member v (lit ''contact'')
       (\<lambda>c. has_member c (lit ''primaryContactId'') is_number
          \<and> has_member c (lit ''emails'') is_string_array
          \<and> has_member c (lit ''phoneNumbers'') is_string_array
          \<and> has_member c (lit ''secondaryContactIds'') is_string_array)"

text \<open>
  A mock transport that settles every \<^verbatim>\<open>fetch\<close> with the same outcome and keeps its
  state, and one that counts the calls and fails from the second call on.
\<close>

definition mock :: "js_error + 'j response \<Rightarrow> (unit, 'j) transport" where
  "mock outcome n rq = (outcome, n)"

definition flaky :: "'j response \<Rightarrow> js_error \<Rightarrow> (nat, 'j) transport" where
  "flaky r e n rq = (if n = 0 then Inr r else Inl e, Suc n)"

definition world0 :: "'n \<Rightarrow> 'n world" where
  "world0 n = \<lparr>net = n, sent = [], console = []\<rparr>"

definition page0 :: "'n \<Rightarrow> ('n, 'j) page" where
  "page0 n =
     \<lparr>net = n, sent = [], console = [], response = None, isLoading = False, errors = [],
      toasts = []\<rparr>"

text \<open>Errors that the platform throws, and the body of the example response.\<close>

definition network_error :: js_error where
  "network_error = JsError (lit ''TypeError'') (lit ''Failed to fetch'')"

definition parse_error :: js_error where
  "parse_error = JsError (lit ''SyntaxError'') (lit ''Unexpected end of JSON input'')"

definition example_body :: json where
  "example_body =
     JObject [(lit ''contact'',
       JObject [(lit ''primaryContactId'', JNumber 1),
                (lit ''emails'', JArray [JString (lit ''a@x.com'')]),
                (lit ''phoneNumbers'', JArray [JString (lit ''123'')]),
                (lit ''secondaryContactIds'', JArray [])])]"

section \<open>Properties of \<^verbatim>\<open>JSON.stringify\<close>\<close>















section \<open>Properties of \<^verbatim>\<open>checkHealth\<close>\<close>

lemma checkHealth_run:
  "checkHealth tr w =
     (case tr (net w) health_request of
        (Inl e, n') \<Rightarrow>
          (Inr False,
           w\<lparr>net := n', sent := sent w @ [health_request],
             console := console w @ [(lit ''Health check failed:'', e)]\<rparr>)
      | (Inr r, n') \<Rightarrow>
          (Inr (status r = 200 \<or> status r = 201),
           w\<lparr>net := n', sent := sent w @ [health_request]\<rparr>))"
  by (simp add: checkHealth_def try_catch_def await_def fetch_def return_def
      console_error_def split: prod.split sum.split)

lemma lit_append: "lit (a @ b) = lit a @ lit b"
  by (simp add: lit_def)

lemma health_request_eq:
  "health_request =
     \<lparr>url = lit ''https://aryan-bitespeed.onrender.com/api/health'',
      http_method = lit ''GET'',
      headers = [(lit ''Content-Type'', lit ''application/json'')],
      body = None\<rparr>"
  by (simp add: health_request_def BASE_URL_def lit_append [symmetric])


lemma checkHealth_fst:
  "fst (checkHealth tr w) =
     Inr (case fst (tr (net w) health_request) of
            Inl e \<Rightarrow> False
          | Inr r \<Rightarrow> status r = 200 \<or> status r = 201)"
  by (simp add: checkHealth_run split: prod.split sum.split)

text \<open>
  Claim C1. \<^verbatim>\<open>checkHealth()\<close> issues one GET to the health endpoint and resolves to
  \<^verbatim>\<open>true\<close> exactly when the response has status 200 or 201: a response with any
  other status resolves to \<^verbatim>\<open>false\<close>, and so does a \<^verbatim>\<open>fetch\<close> that rejects.
\<close>

theorem checkHealth_healthy_iff:
  "sent (snd (checkHealth tr w)) = sent w @
     [\<lparr>url = lit ''https://aryan-bitespeed.onrender.com/api/health'',
       http_method = lit ''GET'',
       headers = [(lit ''Content-Type'', lit ''application/json'')],
       body = None\<rparr>]
   \<and> (fst (tr (net w) health_request) = Inr r \<longrightarrow>
        fst (checkHealth tr w) = Inr (status r = 200 \<or> status r = 201))
   \<and> (fst (tr (net w) health_request) = Inl e \<longrightarrow> fst (checkHealth tr w) = Inr False)"
  by (simp add: checkHealth_fst checkHealth_run health_request_eq [symmetric]
      split: prod.split sum.split)

text \<open>Statuses 200 and 201, 404 and 500, and a network error.\<close>

theorem checkHealth_healthy_iff_witness:
  "fst (checkHealth (mock (Inr \<lparr>status = 200, json = Inr JNull\<rparr>)) (world0 ())) = Inr True
   \<and> fst (checkHealth (mock (Inr \<lparr>status = 201, json = Inr JNull\<rparr>)) (world0 ())) = Inr True
   \<and> fst (checkHealth (mock (Inr \<lparr>status = 404, json = Inr JNull\<rparr>)) (world0 ())) = Inr False
   \<and> fst (checkHealth (mock (Inr \<lparr>status = 500, json = Inr JNull\<rparr>)) (world0 ())) = Inr False
   \<and> fst (checkHealth (mock (Inl network_error :: js_error + json response)) (world0 ()))
       = Inr False"
  using
    checkHealth_healthy_iff [of "mock (Inr \<lparr>status = 200, json = Inr JNull\<rparr>)" "world0 ()"
      "\<lparr>status = 200, json = Inr JNull\<rparr>"]
    checkHealth_healthy_iff [of "mock (Inr \<lparr>status = 201, json = Inr JNull\<rparr>)" "world0 ()"
      "\<lparr>status = 201, json = Inr JNull\<rparr>"]
    checkHealth_healthy_iff [of "mock (Inr \<lparr>status = 404, json = Inr JNull\<rparr>)" "world0 ()"
      "\<lparr>status = 404, json = Inr JNull\<rparr>"]
    checkHealth_healthy_iff [of "mock (Inr \<lparr>status = 500, json = Inr JNull\<rparr>)" "world0 ()"
      "\<lparr>status = 500, json = Inr JNull\<rparr>"]
    checkHealth_healthy_iff [of "mock (Inl network_error :: js_error + json response)"
      "world0 ()" _ network_error]
  by (simp add: mock_def)

text \<open>
  Claim C2. Whatever the transport does, a response of any status or a rejection,
  \<^verbatim>\<open>checkHealth()\<close> resolves to a boolean and never rejects.
\<close>

theorem checkHealth_never_rejects:
  "(\<exists>b. fst (checkHealth tr w) = Inr b) \<and> (\<forall>e. fst (checkHealth tr w) \<noteq> Inl e)"
  by (simp add: checkHealth_fst)

theorem checkHealth_never_rejects_witness:
  "(\<exists>b. fst (checkHealth (mock (Inl network_error :: js_error + json response)) (world0 ()))
          = Inr b)
   \<and> (\<exists>b. fst (checkHealth (mock (Inr \<lparr>status = 503, json = Inl parse_error\<rparr>
              :: js_error + json response)) (world0 ())) = Inr b)"
  using
    checkHealth_never_rejects [of "mock (Inl network_error :: js_error + json response)"
      "world0 ()"]
    checkHealth_never_rejects [of "mock (Inr \<lparr>status = 503, json = Inl parse_error\<rparr>
      :: js_error + json response)" "world0 ()"]
  by blast

text \<open>
  Claim C8. The outcome of \<^verbatim>\<open>checkHealth\<close> is determined by the state of the
  transport: worlds that differ in what the client has sent and logged give the same
  boolean, and so does a second call in sequence when the first left the transport in
  its state.
\<close>

theorem checkHealth_idempotent:
  "(net w1 = net w2 \<longrightarrow> fst (checkHealth tr w1) = fst (checkHealth tr w2))
   \<and> (net (snd (checkHealth tr w)) = net w \<longrightarrow>
        fst (checkHealth tr (snd (checkHealth tr w))) = fst (checkHealth tr w))"
  by (simp add: checkHealth_fst)

theorem checkHealth_idempotent_witness:
  "fst (checkHealth (mock (Inr \<lparr>status = 200, json = Inr JNull\<rparr>))
         (snd (checkHealth (mock (Inr \<lparr>status = 200, json = Inr JNull\<rparr>)) (world0 ()))))
     = fst (checkHealth (mock (Inr \<lparr>status = 200, json = Inr JNull\<rparr>)) (world0 ()))"
  using checkHealth_idempotent
    [of "world0 ()" "world0 ()" "mock (Inr \<lparr>status = 200, json = Inr JNull\<rparr>)" "world0 ()"]
  by simp

text \<open>
  The condition on the transport is needed: a transport that fails from its second
  call on gives \<^verbatim>\<open>true\<close> and then \<^verbatim>\<open>false\<close>.
\<close>

lemma checkHealth_flaky:
  "fst (checkHealth (flaky \<lparr>status = 200, json = Inr JNull\<rparr> network_error) (world0 0))
     = Inr True
   \<and> fst (checkHealth (flaky \<lparr>status = 200, json = Inr JNull\<rparr> network_error)
         (snd (checkHealth (flaky \<lparr>status = 200, json = Inr JNull\<rparr> network_error)
            (world0 0)))) = Inr False"
  by (simp add: checkHealth_run flaky_def world0_def)

section \<open>Properties of \<^verbatim>\<open>identifyContact\<close>\<close>



lemma identifyContact_try_run:
  "identifyContact_try tr data w =
     (case tr (net w) (identify_request data) of
        (Inl e, n') \<Rightarrow> (Inl e, w\<lparr>net := n', sent := sent w @ [identify_request data]\<rparr>)
      | (Inr r, n') \<Rightarrow>
          (if \<not> ok r
           then Inl (new_Error (lit ''HTTP error! status: '' @ Number_toString (status r)))
           else json r,
           w\<lparr>net := n', sent := sent w @ [identify_request data]\<rparr>))"
  by (simp add: identifyContact_try_def await_def fetch_def return_def throw_def
      response_json_def split: prod.split sum.split)

lemma identifyContact_catch:
  "identifyContact tr data w =
     (case identifyContact_try tr data w of
        (Inl e, w') \<Rightarrow> (Inl e, w'\<lparr>console := console w' @ [(lit ''API call failed:'', e)]\<rparr>)
      | (Inr v, w') \<Rightarrow> (Inr v, w'))"
  by (simp add: identifyContact_def try_catch_def await_def console_error_def throw_def
      split: prod.split sum.split)

lemma identifyContact_fst:
  "fst (identifyContact tr data w) =
     (case fst (tr (net w) (identify_request data)) of
        Inl e \<Rightarrow> Inl e
      | Inr r \<Rightarrow>
          if \<not> ok r
          then Inl (new_Error (lit ''HTTP error! status: '' @ Number_toString (status r)))
          else json r)"
  by (simp add: identifyContact_catch identifyContact_try_run split: prod.split sum.split)

lemma identifyContact_sent:
  "sent (snd (identifyContact tr data w)) = sent w @ [identify_request data]"
  by (simp add: identifyContact_catch identifyContact_try_run split: prod.split sum.split)

lemma identifyContact_net:
  "net (snd (identifyContact tr data w)) = snd (tr (net w) (identify_request data))"
  by (simp add: identifyContact_catch identifyContact_try_run split: prod.split sum.split)

lemma identifyContact_console:
  "console (snd (identifyContact tr data w)) =
     (case fst (identifyContact tr data w) of
        Inl e \<Rightarrow> console w @ [(lit ''API call failed:'', e)]
      | Inr v \<Rightarrow> console w)"
  by (simp add: identifyContact_catch identifyContact_try_run split: prod.split sum.split)








text \<open>
  Claim C4. When \<^verbatim>\<open>fetch\<close> resolves with a status in 200..299 and the body parses,
  \<^verbatim>\<open>identifyContact\<close> resolves to the parsed body as it is, whatever its shape, and
  writes nothing to the console.
\<close>

theorem identifyContact_returns_parsed_body:
  "fst (tr (net w) (identify_request data)) = Inr r \<Longrightarrow> ok r \<Longrightarrow> json r = Inr v \<Longrightarrow>
     fst (identifyContact tr data w) = Inr v
     \<and> console (snd (identifyContact tr data w)) = console w"
  by (simp add: identifyContact_console identifyContact_fst)

text \<open>
  The example response of the specification, which has the shape of
  \<^verbatim>\<open>ContactResponse\<close>, and a body that has not.
\<close>

theorem identifyContact_returns_parsed_body_witness:
  "fst (identifyContact (mock (Inr \<lparr>status = 200, json = Inr example_body\<rparr>))
         [(email, Some (lit ''a@x.com''))] (world0 ())) = Inr example_body
   \<and> ContactResponse example_body
   \<and> fst (identifyContact (mock (Inr \<lparr>status = 200, json = Inr (JArray [JNull])\<rparr>))
         [(email, Some (lit ''a@x.com''))] (world0 ())) = Inr (JArray [JNull])
   \<and> \<not> ContactResponse (JArray [JNull])"
  using
    identifyContact_returns_parsed_body
      [of "mock (Inr \<lparr>status = 200, json = Inr example_body\<rparr>)" "world0 ()"
        "[(email, Some (lit ''a@x.com''))]" "\<lparr>status = 200, json = Inr example_body\<rparr>"
        example_body]
    identifyContact_returns_parsed_body
      [of "mock (Inr \<lparr>status = 200, json = Inr (JArray [JNull])\<rparr>)" "world0 ()"
        "[(email, Some (lit ''a@x.com''))]" "\<lparr>status = 200, json = Inr (JArray [JNull])\<rparr>"
        "JArray [JNull]"]
  by (simp add: mock_def ok_def ContactResponse_def example_body_def lit_def)

text \<open>
  Claim C5, as amended. For a response with a status in 202..299, \<^verbatim>\<open>checkHealth\<close>
  resolves to \<^verbatim>\<open>false\<close>, while \<^verbatim>\<open>identifyContact\<close> passes its status check and
  goes on to the body: its outcome is the outcome of \<^verbatim>\<open>json()\<close>. It resolves to the
  parsed body when the body parses, and rejects with the error of \<^verbatim>\<open>json()\<close> when it
  does not.
\<close>

theorem asymmetric_success_ranges:
  "202 \<le> status r \<Longrightarrow> status r \<le> 299 \<Longrightarrow>
   fst (tr (net w) health_request) = Inr r \<Longrightarrow>
   fst (tr (net w) (identify_request data)) = Inr r \<Longrightarrow>
     fst (checkHealth tr w) = Inr False
     \<and> fst (identifyContact tr data w) = json r
     \<and> (json r = Inr v \<longrightarrow> fst (identifyContact tr data w) = Inr v)
     \<and> (json r = Inl e \<longrightarrow> fst (identifyContact tr data w) = Inl e)"
  by (simp add: checkHealth_fst identifyContact_fst ok_def)

text \<open>
  Status 202 with the example body, and status 204, whose body is empty and does not
  parse.
\<close>

theorem asymmetric_success_ranges_witness:
  "fst (checkHealth (mock (Inr \<lparr>status = 202, json = Inr example_body\<rparr>)) (world0 ()))
     = Inr False
   \<and> fst (identifyContact (mock (Inr \<lparr>status = 202, json = Inr example_body\<rparr>))
         [(phoneNumber, Some (lit ''123''))] (world0 ())) = Inr example_body
   \<and> fst (checkHealth (mock (Inr \<lparr>status = 204, json = Inl parse_error\<rparr>
           :: js_error + json response)) (world0 ())) = Inr False
   \<and> fst (identifyContact (mock (Inr \<lparr>status = 204, json = Inl parse_error\<rparr>
           :: js_error + json response))
         [(phoneNumber, Some (lit ''123''))] (world0 ())) = Inl parse_error"
  using
    asymmetric_success_ranges
      [of "\<lparr>status = 202, json = Inr example_body\<rparr>"
        "mock (Inr \<lparr>status = 202, json = Inr example_body\<rparr>)" "world0 ()"
        "[(phoneNumber, Some (lit ''123''))]" example_body]
    asymmetric_success_ranges
      [of "\<lparr>status = 204, json = Inl parse_error\<rparr> :: json response"
        "mock (Inr \<lparr>status = 204, json = Inl parse_error\<rparr>)" "world0 ()"
        "[(phoneNumber, Some (lit ''123''))]" _ parse_error]
  by (simp add: mock_def)

text \<open>
  The claim as it was stated, that \<^verbatim>\<open>identifyContact\<close> resolves for every status in
  202..299, fails at status 204: the response has no body, \<^verbatim>\<open>json()\<close> rejects with a
  \<^verbatim>\<open>SyntaxError\<close>, and so does \<^verbatim>\<open>identifyContact\<close>.
\<close>

theorem asymmetric_success_ranges_counterexample:
  "202 \<le> status (\<lparr>status = 204, json = Inl parse_error\<rparr> :: json response)
   \<and> status (\<lparr>status = 204, json = Inl parse_error\<rparr> :: json response) \<le> 299
   \<and> fst (identifyContact (mock (Inr \<lparr>status = 204, json = Inl parse_error\<rparr>
           :: js_error + json response))
         [(phoneNumber, Some (lit ''123''))] (world0 ())) = Inl parse_error
   \<and> fst (identifyContact (mock (Inr \<lparr>status = 204, json = Inl parse_error\<rparr>
           :: js_error + json response))
         [(phoneNumber, Some (lit ''123''))] (world0 ())) \<noteq> Inr example_body"
  by (simp add: identifyContact_fst mock_def ok_def)





text \<open>
  Claim C9. A failure of \<^verbatim>\<open>identifyContact\<close> is the error that its \<^verbatim>\<open>try\<close> block
  raised, unchanged: the \<^verbatim>\<open>catch\<close> block writes one line with this error to the
  console and throws it again, and a result of the block passes through.
\<close>

theorem identifyContact_rethrows_same_error:
  "(identifyContact_try tr data w = (Inl e, w') \<longrightarrow>
      identifyContact tr data w
        = (Inl e, w'\<lparr>console := console w' @ [(lit ''API call failed:'', e)]\<rparr>))
   \<and> (identifyContact_try tr data w = (Inr v, w') \<longrightarrow> identifyContact tr data w = (Inr v, w'))
   \<and> (fst (identifyContact tr data w) = Inl e \<longleftrightarrow> fst (identifyContact_try tr data w) = Inl e)"
  by (simp add: identifyContact_catch split: prod.split sum.split)

theorem identifyContact_rethrows_same_error_witness:
  "identifyContact (mock (Inl network_error :: js_error + json response))
     [(email, Some (lit ''a@x.com''))] (world0 ())
   = (Inl network_error,
      \<lparr>net = (), sent = [identify_request [(email, Some (lit ''a@x.com''))]],
       console = [(lit ''API call failed:'', network_error)]\<rparr>)"
  using identifyContact_rethrows_same_error
    [of "mock (Inl network_error :: js_error + json response)"
      "[(email, Some (lit ''a@x.com''))]" "world0 ()" network_error
      "\<lparr>net = (), sent = [identify_request [(email, Some (lit ''a@x.com''))]], console = []\<rparr>"]
  by (simp add: identifyContact_try_run mock_def world0_def)

section \<open>Properties of the submit path\<close>

lemma truthy_iff: "truthy v \<longleftrightarrow> (\<exists>s. v = Some s \<and> s \<noteq> [])"
  by (cases v) (simp_all add: truthy_def)

lemma onSubmit_guard:
  "\<not> truthy (get_prop data email) \<Longrightarrow> \<not> truthy (get_prop data phoneNumber) \<Longrightarrow>
     onSubmit tr data p =
       (Inr (), p\<lparr>toasts := toasts p @ [toast_error (lit ''Please provide at least one field'')]\<rparr>)"
  by (simp add: onSubmit_def await_def raise_toast_def return_def)

lemma onSubmit_sent:
  assumes "truthy (get_prop data email) \<or> truthy (get_prop data phoneNumber)"
  shows "sent (snd (onSubmit tr data p)) = sent p @ [identify_request data]"
proof -
  obtain res p' where eq: "identifyContact tr data (p\<lparr>isLoading := True\<rparr>) = (res, p')"
    by (cases "identifyContact tr data (p\<lparr>isLoading := True\<rparr>)")
  have "sent p' = sent p @ [identify_request data]"
    using identifyContact_sent [of tr data "p\<lparr>isLoading := True\<rparr>"] eq by simp
  then show ?thesis
    using assms
    by (cases res)
      (auto simp: onSubmit_def await_def try_finally_def try_catch_def setIsLoading_def
        raise_toast_def setResponse_def eq)
qed

lemma formSchema_accepts:
  "(\<exists>d. formSchema data = Inr d) \<longleftrightarrow>
     truthy (get_prop data email) \<or> truthy (get_prop data phoneNumber)"
  by (simp add: formSchema_def)

text \<open>
  Claim C10. The page calls \<^verbatim>\<open>identifyContact\<close> only for data in which
  \<^verbatim>\<open>email\<close> or \<^verbatim>\<open>phoneNumber\<close> is a non-empty string. The guard of
  \<^verbatim>\<open>onSubmit\<close> returns with a notification and without a request when both are
  empty, and sends the request otherwise; the refinement of \<^verbatim>\<open>formSchema\<close> accepts
  exactly the same data, so a submission through \<^verbatim>\<open>handleSubmit\<close> sends nothing
  either.
\<close>

theorem onSubmit_requires_a_field:
  "(\<not> truthy (get_prop data email) \<and> \<not> truthy (get_prop data phoneNumber) \<longrightarrow>
      onSubmit tr data p =
        (Inr (),
         p\<lparr>toasts := toasts p @ [toast_error (lit ''Please provide at least one field'')]\<rparr>))
   \<and> (sent (snd (onSubmit tr data p)) \<noteq> sent p \<longrightarrow>
        truthy (get_prop data email) \<or> truthy (get_prop data phoneNumber))
   \<and> (truthy (get_prop data email) \<or> truthy (get_prop data phoneNumber) \<longrightarrow>
        sent (snd (onSubmit tr data p)) = sent p @ [identify_request data])
   \<and> ((\<exists>d. formSchema data = Inr d) \<longleftrightarrow>
        truthy (get_prop data email) \<or> truthy (get_prop data phoneNumber))
   \<and> (sent (snd (handleSubmit tr data p)) \<noteq> sent p \<longrightarrow>
        truthy (get_prop data email) \<or> truthy (get_prop data phoneNumber))
   \<and> (truthy v \<longleftrightarrow> (\<exists>s. v = Some s \<and> s \<noteq> []))"
proof (intro conjI)
  show "\<not> truthy (get_prop data email) \<and> \<not> truthy (get_prop data phoneNumber) \<longrightarrow>
      onSubmit tr data p =
        (Inr (),
         p\<lparr>toasts := toasts p @ [toast_error (lit ''Please provide at least one field'')]\<rparr>)"
    by (simp add: onSubmit_guard)
  then show "sent (snd (onSubmit tr data p)) \<noteq> sent p \<longrightarrow>
        truthy (get_prop data email) \<or> truthy (get_prop data phoneNumber)"
    by auto
  show "truthy (get_prop data email) \<or> truthy (get_prop data phoneNumber) \<longrightarrow>
        sent (snd (onSubmit tr data p)) = sent p @ [identify_request data]"
    using onSubmit_sent by blast
  show "(\<exists>d. formSchema data = Inr d) \<longleftrightarrow>
        truthy (get_prop data email) \<or> truthy (get_prop data phoneNumber)"
    by (rule formSchema_accepts)
  show "sent (snd (handleSubmit tr data p)) \<noteq> sent p \<longrightarrow>
        truthy (get_prop data email) \<or> truthy (get_prop data phoneNumber)"
    by (auto simp: handleSubmit_def formSchema_def)
  show "truthy v \<longleftrightarrow> (\<exists>s. v = Some s \<and> s \<noteq> [])"
    by (rule truthy_iff)
qed

theorem onSubmit_requires_a_field_witness:
  "onSubmit (mock (Inr \<lparr>status = 200, json = Inr example_body\<rparr>))
     [(email, Some []), (phoneNumber, Some [])] (page0 ())
   = (Inr (),
      (page0 ())\<lparr>toasts := [toast_error (lit ''Please provide at least one field'')]\<rparr>)
   \<and> sent (snd (onSubmit (mock (Inr \<lparr>status = 200, json = Inr example_body\<rparr>))
        [(email, Some []), (phoneNumber, Some (lit ''123''))] (page0 ())))
     = [identify_request [(email, Some []), (phoneNumber, Some (lit ''123''))]]"
  using
    onSubmit_requires_a_field
      [of "[(email, Some []), (phoneNumber, Some [])]"
        "mock (Inr \<lparr>status = 200, json = Inr example_body\<rparr>)" "page0 ()"]
    onSubmit_requires_a_field
      [of "[(email, Some []), (phoneNumber, Some (lit ''123''))]"
        "mock (Inr \<lparr>status = 200, json = Inr example_body\<rparr>)" "page0 ()"]
  by (simp add: get_prop_def truthy_def page0_def lit_def)

end
